theory Spec2Isabelle
  imports Main "HOL-Library.Sublist" "HOL-Library.AList"
begin

section \<open>Data model of the storage manager\<close>

text \<open>
  The model follows \<^verbatim>\<open>cdm/storage/storage_manager.py\<close>. Python exceptions are values of
  \<open>py_error\<close>; a method that can raise returns \<open>py_error + 'a\<close>. Every method that logs or
  mutates takes the manager and returns it updated, next to its result: a raise does not
  roll the manager back, so the manager is returned in both cases.
\<close>

datatype py_error = IndexError | AttributeError | TypeError | KeyError | JSONDecodeError

text \<open>One call of \<^verbatim>\<open>self._ctx.logger.error\<close> or \<^verbatim>\<open>.warning\<close>: the message and the optional
  second positional argument.\<close>

datatype log_entry = LogError string "string option" | LogWarning string "string option"

text \<open>A storage adapter is an external collaborator; the manager reads its \<^verbatim>\<open>_type\<close> field
  and calls \<^verbatim>\<open>create_corpus_path\<close> and \<^verbatim>\<open>fetch_config\<close>, which are fields of the
  record (\<open>None\<close> is Python's \<^verbatim>\<open>None\<close>).\<close>

record adapter =
  adapter_type :: string
  create_corpus_path :: "string \<Rightarrow> string option"
  adapter_fetch_config :: "string option"

text \<open>An object that exposes \<^verbatim>\<open>namespace\<close> and \<^verbatim>\<open>folder_path\<close> (a folder or a document).\<close>

record cdm_container =
  namespace :: "string option"
  folder_path :: "string option"

text \<open>The \<^verbatim>\<open>obj\<close> argument of path resolution: either it has both attributes itself, or
  it is read through its \<^verbatim>\<open>in_document\<close>, which may be \<^verbatim>\<open>None\<close>.\<close>

datatype cdm_object = Container cdm_container | Member "cdm_container option"

record storage_manager =
  default_namespace :: "string option"
  app_id :: "string option"
  namespace_adapters :: "(string \<times> adapter) list"
  namespace_folders :: "(string \<times> cdm_container) list"
  system_defined_namespaces :: "string set"
  logger :: "log_entry list"

definition log_error :: "string \<Rightarrow> string option \<Rightarrow> storage_manager \<Rightarrow> storage_manager" where
  "log_error msg arg sm = sm\<lparr>logger := logger sm @ [LogError msg arg]\<rparr>"

definition log_warning :: "string \<Rightarrow> string option \<Rightarrow> storage_manager \<Rightarrow> storage_manager" where
  "log_warning msg arg sm = sm\<lparr>logger := logger sm @ [LogWarning msg arg]\<rparr>"

text \<open>Truthiness of an optional string, and Python's \<^verbatim>\<open>a or b\<close> on such values.\<close>

fun truthy :: "string option \<Rightarrow> bool" where
  "truthy None = False"
| "truthy (Some s) = (s \<noteq> [])"

definition py_or :: "string option \<Rightarrow> string option \<Rightarrow> string option" where
  "py_or a b = (if truthy a then a else b)"

section \<open>Path resolver\<close>

text \<open>\<^verbatim>\<open>str.find\<close> of one character: the first index, or \<open>None\<close> for \<^verbatim>\<open>-1\<close>.\<close>

fun str_find :: "char \<Rightarrow> string \<Rightarrow> nat option" where
  "str_find c [] = None"
| "str_find c (x # xs) =
     (if x = c then Some 0 else map_option Suc (str_find c xs))"

definition split_namespace_path :: "string \<Rightarrow> string \<times> string" where
  "split_namespace_path object_path =
     (case str_find CHR '':'' object_path of
        None \<Rightarrow> ([], object_path)
      | Some namespace_index \<Rightarrow>
          (take namespace_index object_path, drop (namespace_index + 1) object_path))"

text \<open>The backslash, which the source writes \<^verbatim>\<open>'\\'\<close>.\<close>

definition bsl :: char where
  "bsl = CHR 0x5C"

text \<open>The test of \<^verbatim>\<open>_contains_unsupported_path_format\<close>, and the message of the rule
  that fires (the first of the \<^verbatim>\<open>if/elif\<close> chain).\<close>

definition unsupported_message :: "string \<Rightarrow> string option" where
  "unsupported_message path =
     (if prefix ''./'' path \<or> prefix [CHR ''.'', bsl] path
        then Some ''The path should not start with ./''
      else if sublist ''../'' path \<or> sublist [CHR ''.'', CHR ''.'', bsl] path
        then Some ''The path should not contain ../''
      else if sublist ''/./'' path \<or> sublist [bsl, CHR ''.'', bsl] path
        then Some ''The path should not contain /./''
      else None)"

definition contains_unsupported_path_format ::
  "storage_manager \<Rightarrow> string \<Rightarrow> bool \<times> storage_manager" where
  "contains_unsupported_path_format sm path =
     (case unsupported_message path of
        None \<Rightarrow> (False, sm)
      | Some status_message \<Rightarrow> (True, log_error status_message (Some path) sm))"

text \<open>Step 3 of \<^verbatim>\<open>create_absolute_corpus_path\<close>: the prefix and the namespace read from
  \<^verbatim>\<open>obj\<close>. Reading \<^verbatim>\<open>obj.in_document.folder_path\<close> when \<^verbatim>\<open>in_document\<close> is \<^verbatim>\<open>None\<close> raises.\<close>

fun obj_prefix_namespace ::
  "cdm_object option \<Rightarrow> py_error + (string option \<times> string option)" where
  "obj_prefix_namespace None = Inr (None, None)"
| "obj_prefix_namespace (Some (Container c)) = Inr (folder_path c, namespace c)"
| "obj_prefix_namespace (Some (Member None)) = Inl AttributeError"
| "obj_prefix_namespace (Some (Member (Some d))) = Inr (folder_path d, namespace d)"

text \<open>\<^verbatim>\<open>'{}:{}'.format(final_namespace, path) if final_namespace else path\<close>.\<close>

definition format_corpus_path :: "string option \<Rightarrow> string \<Rightarrow> string" where
  "format_corpus_path final_namespace path =
     (case final_namespace of
        None \<Rightarrow> path
      | Some ns \<Rightarrow> if ns = [] then path else ns @ '':'' @ path)"

text \<open>The part of \<^verbatim>\<open>create_absolute_corpus_path\<close> after the prefix has been checked and
  completed (source lines 162 to 177). \<^verbatim>\<open>path_tuple[1][0]\<close> raises on an empty remainder,
  and \<^verbatim>\<open>prefix + path_tuple[1]\<close> raises when the prefix is \<^verbatim>\<open>None\<close>.\<close>

definition resolve_path ::
  "storage_manager \<Rightarrow> string \<times> string \<Rightarrow> cdm_object option \<Rightarrow> string option \<Rightarrow>
   string option \<Rightarrow> (py_error + string option) \<times> storage_manager" where
  "resolve_path sm path_tuple obj prefix0 namespace_from_obj =
     (case snd path_tuple of
        [] \<Rightarrow> (Inl IndexError, sm)
      | c # _ \<Rightarrow>
          if c \<noteq> CHR ''/'' then
            (let prefix1 = (if obj = None then Some ''/'' else prefix0) in
             if fst path_tuple \<noteq> [] \<and> Some (fst path_tuple) \<noteq> namespace_from_obj then
               (Inr None,
                log_warning (''The namespace \"'' @ fst path_tuple @
                  ''\" found on the path does not match the namespace found on the object'')
                  None sm)
             else
               (case prefix1 of
                  None \<Rightarrow> (Inl TypeError, sm)
                | Some p \<Rightarrow>
                    (Inr (Some (format_corpus_path
                       (py_or namespace_from_obj
                          (py_or (Some (fst path_tuple)) (default_namespace sm)))
                       (p @ snd path_tuple))), sm)))
          else
            (Inr (Some (format_corpus_path
               (py_or (Some (fst path_tuple))
                  (py_or namespace_from_obj (default_namespace sm)))
               (snd path_tuple))), sm))"

definition create_absolute_corpus_path ::
  "storage_manager \<Rightarrow> string \<Rightarrow> cdm_object option \<Rightarrow>
   (py_error + string option) \<times> storage_manager" where
  "create_absolute_corpus_path sm object_path obj =
     (case contains_unsupported_path_format sm object_path of
        (True, sm1) \<Rightarrow> (Inr None, sm1)
      | (False, sm1) \<Rightarrow>
          (let path_tuple = split_namespace_path object_path in
           case obj_prefix_namespace obj of
             Inl e \<Rightarrow> (Inl e, sm1)
           | Inr (prefix0, namespace_from_obj) \<Rightarrow>
               (case (if truthy prefix0
                      then contains_unsupported_path_format sm1 (the prefix0)
                      else (False, sm1)) of
                  (True, sm2) \<Rightarrow> (Inr None, sm2)
                | (False, sm2) \<Rightarrow>
                    if truthy prefix0 \<and> last (the prefix0) \<noteq> CHR ''/'' then
                      resolve_path
                        (log_warning
                           ''Expected path prefix to end in /, but it didn't. Appended the /''
                           prefix0 sm2)
                        path_tuple obj (Some (the prefix0 @ ''/'')) namespace_from_obj
                    else resolve_path sm2 path_tuple obj prefix0 namespace_from_obj)))"

text \<open>\<^verbatim>\<open>create_relative_corpus_path\<close>. Its \<^verbatim>\<open>relative_to\<close> is a container by its annotation.
  \<^verbatim>\<open>new_path.startswith\<close> raises when the absolute step returned \<^verbatim>\<open>None\<close>; it is only
  evaluated when \<^verbatim>\<open>namespace_string\<close> is not empty.\<close>

definition create_relative_corpus_path ::
  "storage_manager \<Rightarrow> string \<Rightarrow> cdm_container option \<Rightarrow>
   (py_error + string option) \<times> storage_manager" where
  "create_relative_corpus_path sm object_path relative_to =
     (case create_absolute_corpus_path sm object_path (map_option Container relative_to) of
        (Inl e, sm1) \<Rightarrow> (Inl e, sm1)
      | (Inr new_path, sm1) \<Rightarrow>
          (let namespace_string =
                 (case relative_to of
                    None \<Rightarrow> []
                  | Some r \<Rightarrow> if truthy (namespace r) then the (namespace r) @ '':'' else [])
           in
           if namespace_string \<noteq> [] then
             (case new_path of
                None \<Rightarrow> (Inl AttributeError, sm1)
              | Some np \<Rightarrow>
                  if prefix namespace_string np then
                    (let np1 = drop (length namespace_string) np in
                     case relative_to of
                       None \<Rightarrow> (Inr (Some np1), sm1)
                     | Some r \<Rightarrow>
                         if truthy (folder_path r) \<and> prefix (the (folder_path r)) np1
                         then (Inr (Some (drop (length (the (folder_path r))) np1)), sm1)
                         else (Inr (Some np1), sm1))
                  else (Inr (Some np), sm1))
           else (Inr new_path, sm1)))"

section \<open>Namespace registry\<close>

text \<open>The two \<^verbatim>\<open>OrderedDict\<close>s are association lists in insertion order. Assigning
  \<^verbatim>\<open>d[k] = v\<close> replaces the value of a present key where it stands and appends an absent
  one (\<open>AList.update\<close>); \<^verbatim>\<open>d.pop(k, None)\<close> removes the key (\<open>AList.delete\<close>).\<close>

definition mount :: "storage_manager \<Rightarrow> string \<Rightarrow> adapter option \<Rightarrow> storage_manager" where
  "mount sm ns ad =
     (case ad of
        None \<Rightarrow> sm
      | Some a \<Rightarrow>
          sm\<lparr>namespace_adapters := AList.update ns a (namespace_adapters sm),
             namespace_folders :=
               AList.update ns \<lparr>namespace = Some ns, folder_path = Some ''/''\<rparr>
                 (namespace_folders sm),
             system_defined_namespaces := system_defined_namespaces sm - {ns}\<rparr>)"

text \<open>\<^verbatim>\<open>unmount\<close>; the \<^verbatim>\<open>ResourceAdapter()\<close> it builds for \<^verbatim>\<open>'cdm'\<close> is a parameter.\<close>

definition unmount :: "adapter \<Rightarrow> storage_manager \<Rightarrow> string \<Rightarrow> storage_manager" where
  "unmount resource_adapter sm ns =
     (let sm1 = sm\<lparr>namespace_adapters := AList.delete ns (namespace_adapters sm),
                      namespace_folders := AList.delete ns (namespace_folders sm),
                      system_defined_namespaces := system_defined_namespaces sm - {ns}\<rparr>
      in if ns = ''cdm'' then mount sm1 ns (Some resource_adapter) else sm1)"

definition fetch_adapter ::
  "storage_manager \<Rightarrow> string \<Rightarrow> adapter option \<times> storage_manager" where
  "fetch_adapter sm ns =
     (case map_of (namespace_adapters sm) ns of
        Some a \<Rightarrow> (Some a, sm)
      | None \<Rightarrow>
          (None,
           log_error (''Adapter not found for the namespace '' @ [CHR 0x27] @ ns @ [CHR 0x27])
             None sm))"

definition fetch_root_folder ::
  "storage_manager \<Rightarrow> string option \<Rightarrow> cdm_container option \<times> storage_manager" where
  "fetch_root_folder sm ns =
     (case (if truthy ns then map_of (namespace_folders sm) (the ns) else None) of
        Some fd \<Rightarrow> (Some fd, sm)
      | None \<Rightarrow>
          (None,
           log_error
             (''missing adapter for namespace \"'' @
                (case ns of None \<Rightarrow> ''None'' | Some n \<Rightarrow> n) @ ''\"'')
             (Some ''fetch_root_folder'') sm))"

text \<open>The constructor: two mounts, then both namespaces enter the system-defined set.
  The two default adapters and the corpus's application id are parameters.\<close>

definition init :: "adapter \<Rightarrow> adapter \<Rightarrow> string option \<Rightarrow> storage_manager" where
  "init local_adapter github_adapter corpus_app_id =
     (let sm0 = \<lparr>default_namespace = None, app_id = corpus_app_id, namespace_adapters = [],
                  namespace_folders = [], system_defined_namespaces = {}, logger = []\<rparr>;
          sm1 = mount sm0 ''local'' (Some local_adapter);
          sm2 = mount sm1 ''cdm'' (Some github_adapter)
      in sm2\<lparr>system_defined_namespaces :=
               insert ''cdm'' (insert ''local'' (system_defined_namespaces sm2))\<rparr>)"

text \<open>The loop of \<^verbatim>\<open>adapter_path_to_corpus_path\<close>, with the variable \<^verbatim>\<open>result\<close> carried
  along: it keeps the last adapter's answer when no adapter matches.\<close>

fun try_adapters :: "(string \<times> adapter) list \<Rightarrow> string \<Rightarrow> string option \<Rightarrow> string option" where
  "try_adapters [] adapter_path result = result"
| "try_adapters ((key, val) # rest) adapter_path result =
     (let r = create_corpus_path val adapter_path in
      if truthy r then Some (key @ '':'' @ the r) else try_adapters rest adapter_path r)"

definition adapter_path_to_corpus_path ::
  "storage_manager \<Rightarrow> string \<Rightarrow> string option \<times> storage_manager" where
  "adapter_path_to_corpus_path sm adapter_path =
     (let result = try_adapters (namespace_adapters sm) adapter_path None in
      if \<not> truthy result then
        (result,
         log_error (''No registered storage adapter understood the path \"'' @ adapter_path @ ''\"'')
           (Some ''adapter_path_to_corpus_path'') sm)
      else (result, sm))"

section \<open>Configuration serializer\<close>

text \<open>JSON values as \<^verbatim>\<open>json.loads\<close> returns them; an object is a \<^verbatim>\<open>dict\<close>, in insertion order.\<close>

datatype json =
  JNull | JBool bool | JInt int | JStr string | JArr "json list" | JObj "(string \<times> json) list"

fun json_truthy :: "json option \<Rightarrow> bool" where
  "json_truthy None = False"
| "json_truthy (Some JNull) = False"
| "json_truthy (Some (JBool b)) = b"
| "json_truthy (Some (JInt i)) = (i \<noteq> 0)"
| "json_truthy (Some (JStr s)) = (s \<noteq> [])"
| "json_truthy (Some (JArr xs)) = (xs \<noteq> [])"
| "json_truthy (Some (JObj kvs)) = (kvs \<noteq> [])"

text \<open>\<^verbatim>\<open>json_config[key] = value\<close>: only a \<^verbatim>\<open>dict\<close> accepts a string key.\<close>

fun set_item :: "json \<Rightarrow> string \<Rightarrow> json \<Rightarrow> py_error + json" where
  "set_item (JObj kvs) k v = Inr (JObj (AList.update k v kvs))"
| "set_item _ k v = Inl TypeError"

text \<open>One entry of the \<^verbatim>\<open>adapters\<close> array and the configuration document, read as the code
  reads them: by \<^verbatim>\<open>.get\<close> of the three fields, typed as in the wire format (a string, an
  object, a string). \<open>None\<close> is an absent field, for which \<^verbatim>\<open>.get\<close> returns \<^verbatim>\<open>None\<close>.\<close>

record config_item =
  item_namespace :: "string option"
  item_config :: "json option"
  item_type :: "string option"

record config_document =
  doc_app_id :: "string option"
  doc_default_namespace :: "string option"
  doc_adapters :: "config_item list option"

text \<open>The collaborators the serializer calls: \<^verbatim>\<open>json.loads\<close> (on an adapter's blob, and on
  the configuration document), \<^verbatim>\<open>json.dumps\<close> (on a value, and on an entry of the
  document), and the adapter classes of \<^verbatim>\<open>cdm.storage\<close>: \<open>new_adapter cls cfg\<close> stands for
  \<^verbatim>\<open>getattr(module, cls)()\<close> followed by \<^verbatim>\<open>update_config(cfg)\<close>, which may raise.\<close>

record externals =
  json_loads :: "string \<Rightarrow> py_error + json"
  json_dumps :: "json \<Rightarrow> string"
  loads_document :: "string \<Rightarrow> py_error + config_document"
  dumps_item :: "config_item \<Rightarrow> string"
  new_adapter :: "string \<Rightarrow> string \<Rightarrow> py_error + adapter"

text \<open>The loop of \<^verbatim>\<open>fetch_config\<close> over \<^verbatim>\<open>self._namespace_adapters.items()\<close>, with
  \<^verbatim>\<open>adapters_array\<close> as accumulator.\<close>

fun fetch_config_adapters ::
  "externals \<Rightarrow> (string \<times> adapter) list \<Rightarrow> storage_manager \<Rightarrow> json list \<Rightarrow>
   (py_error + json list) \<times> storage_manager" where
  "fetch_config_adapters ext [] sm adapters_array = (Inr adapters_array, sm)"
| "fetch_config_adapters ext ((ns, a) # rest) sm adapters_array =
     (if adapter_type a = ''resource'' \<or> ns \<in> system_defined_namespaces sm then
        fetch_config_adapters ext rest sm adapters_array
      else if \<not> truthy (adapter_fetch_config a) then
        fetch_config_adapters ext rest
          (log_error ''JSON config constructed by adapter is null or empty.'' None sm)
          adapters_array
      else
        (case json_loads ext (the (adapter_fetch_config a)) of
           Inl e \<Rightarrow> (Inl e, sm)
         | Inr json_config \<Rightarrow>
             (case set_item json_config ''namespace'' (JStr ns) of
                Inl e \<Rightarrow> (Inl e, sm)
              | Inr json_config' \<Rightarrow>
                  fetch_config_adapters ext rest sm (adapters_array @ [json_config']))))"

definition fetch_config ::
  "externals \<Rightarrow> storage_manager \<Rightarrow> (py_error + string) \<times> storage_manager" where
  "fetch_config ext sm =
     (case fetch_config_adapters ext (namespace_adapters sm) sm [] of
        (Inl e, sm1) \<Rightarrow> (Inl e, sm1)
      | (Inr adapters_array, sm1) \<Rightarrow>
          (Inr (json_dumps ext (JObj
             ((if truthy (app_id sm) then [(''appId'', JStr (the (app_id sm)))] else []) @
              [(''defaultNamespace'',
                 (case default_namespace sm of None \<Rightarrow> JNull | Some d \<Rightarrow> JStr d)),
               (''adapters'', JArr adapters_array)]))), sm1))"

definition registered_adapter_types :: "string \<Rightarrow> string option" where
  "registered_adapter_types =
     map_of [(''local'', ''LocalAdapter''), (''adls'', ''ADLSAdapter''),
             (''remote'', ''RemoteAdapter''), (''github'', ''GithubAdapter'')]"

text \<open>The loop of \<^verbatim>\<open>mount_from_config\<close> over the entries, with \<^verbatim>\<open>unrecognized_adapters\<close>
  as accumulator; each \<^verbatim>\<open>continue\<close> is the recursive call on the rest.\<close>

fun mount_items ::
  "externals \<Rightarrow> config_item list \<Rightarrow> storage_manager \<Rightarrow> string list \<Rightarrow>
   (py_error + string list) \<times> storage_manager" where
  "mount_items ext [] sm unrecognized_adapters = (Inr unrecognized_adapters, sm)"
| "mount_items ext (item # items) sm unrecognized_adapters =
     (if \<not> truthy (item_namespace item) then
        mount_items ext items
          (log_error ''The namespace is missing for one of the adapters in the JSON config.''
             None sm)
          unrecognized_adapters
      else if \<not> json_truthy (item_config item) then
        mount_items ext items
          (log_error (''Missing JSON config for the namespace '' @ the (item_namespace item)
             @ ''.'') None sm)
          unrecognized_adapters
      else if \<not> truthy (item_type item) then
        mount_items ext items
          (log_error (''Missing type in the JSON config for the namespace '' @
             the (item_namespace item) @ ''.'') None sm)
          unrecognized_adapters
      else
        (case registered_adapter_types (the (item_type item)) of
           None \<Rightarrow>
             mount_items ext items sm (unrecognized_adapters @ [dumps_item ext item])
         | Some adapter_class \<Rightarrow>
             (case new_adapter ext adapter_class (json_dumps ext (the (item_config item))) of
                Inl e \<Rightarrow> (Inl e, sm)
              | Inr a \<Rightarrow>
                  mount_items ext items (mount sm (the (item_namespace item)) (Some a))
                    unrecognized_adapters)))"

text \<open>The three \<^verbatim>\<open>if not item.get(...)\<close> tests that skip an entry.\<close>

definition missing_field :: "config_item \<Rightarrow> bool" where
  "missing_field item \<longleftrightarrow>
     \<not> truthy (item_namespace item) \<or> \<not> json_truthy (item_config item) \<or>
     \<not> truthy (item_type item)"

text \<open>Source lines 215 to 219: the application id and the default namespace are taken
  from the document when it has them.\<close>

definition import_settings :: "config_document \<Rightarrow> storage_manager \<Rightarrow> storage_manager" where
  "import_settings adapter_config_json sm =
     (let sm1 = (if truthy (doc_app_id adapter_config_json)
                 then sm\<lparr>app_id := doc_app_id adapter_config_json\<rparr> else sm)
      in if truthy (doc_default_namespace adapter_config_json)
         then sm1\<lparr>default_namespace := doc_default_namespace adapter_config_json\<rparr>
         else sm1)"

definition mount_from_config ::
  "externals \<Rightarrow> storage_manager \<Rightarrow> string \<Rightarrow> bool \<Rightarrow>
   (py_error + string list option) \<times> storage_manager" where
  "mount_from_config ext sm adapter_config does_return_error_list =
     (if adapter_config = [] then
        (Inr None, log_error ''Adapter config cannot be null or empty.'' None sm)
      else
        (case loads_document ext adapter_config of
           Inl e \<Rightarrow> (Inl e, sm)
         | Inr adapter_config_json \<Rightarrow>
             (let sm2 = import_settings adapter_config_json sm
              in case doc_adapters adapter_config_json of
                   None \<Rightarrow> (Inl KeyError, sm2)
                 | Some items \<Rightarrow>
                     (case mount_items ext items sm2 [] of
                        (Inl e, sm3) \<Rightarrow> (Inl e, sm3)
                      | (Inr unrecognized_adapters, sm3) \<Rightarrow>
                          (Inr (if does_return_error_list then Some unrecognized_adapters
                                else None), sm3)))))"

section \<open>Sequences of registry operations\<close>

datatype registry_op =
  Mount string "adapter option" | Unmount string | MountFromConfig string bool

fun apply_op :: "externals \<Rightarrow> adapter \<Rightarrow> storage_manager \<Rightarrow> registry_op \<Rightarrow> storage_manager" where
  "apply_op ext ra sm (Mount ns ad) = mount sm ns ad"
| "apply_op ext ra sm (Unmount ns) = unmount ra sm ns"
| "apply_op ext ra sm (MountFromConfig cfg flag) = snd (mount_from_config ext sm cfg flag)"

definition run_ops ::
  "externals \<Rightarrow> adapter \<Rightarrow> storage_manager \<Rightarrow> registry_op list \<Rightarrow> storage_manager" where
  "run_ops ext ra sm ops = foldl (apply_op ext ra) sm ops"

text \<open>The pairing of the two dictionaries: the same namespaces are keys of both, and each
  root folder carries its key as namespace and \<^verbatim>\<open>'/'\<close> as folder path.\<close>

definition registry_paired :: "storage_manager \<Rightarrow> bool" where
  "registry_paired sm \<longleftrightarrow>
     set (map fst (namespace_adapters sm)) = set (map fst (namespace_folders sm)) \<and>
     list_all (\<lambda>(k, fd). namespace fd = Some k \<and> folder_path fd = Some ''/'')
       (namespace_folders sm)"

section \<open>Sample values\<close>

text \<open>Concrete adapters, collaborators and managers on which the theorems below are
  instantiated.\<close>

definition sample_adapter :: "string \<Rightarrow> string \<Rightarrow> adapter" where
  "sample_adapter kind root =
     \<lparr>adapter_type = kind,
      create_corpus_path = (\<lambda>p. if prefix root p then Some (drop (length root) p) else None),
      adapter_fetch_config = Some (''{\"root\": \"'' @ root @ ''\"}'')\<rparr>"

definition sample_resource :: adapter where
  "sample_resource = sample_adapter ''resource'' ''res:''"

definition sample_manager :: storage_manager where
  "sample_manager =
     init (sample_adapter ''local'' ''/home/user'') (sample_adapter ''github'' ''https://host'') None"

definition data_folder :: cdm_container where
  "data_folder = \<lparr>namespace = Some ''local'', folder_path = Some ''/data/''\<rparr>"

definition bare_folder :: cdm_container where
  "bare_folder = \<lparr>namespace = None, folder_path = Some ''/data/''\<rparr>"

definition sample_items :: "config_item list" where
  "sample_items =
     [\<lparr>item_namespace = Some ''broken'', item_config = Some (JObj [(''root'', JStr ''/b'')]),
       item_type = None\<rparr>,
      \<lparr>item_namespace = Some ''store'', item_config = Some (JObj [(''root'', JStr ''/srv'')]),
       item_type = Some ''local''\<rparr>,
      \<lparr>item_namespace = Some ''web'', item_config = Some (JObj [(''root'', JStr ''http://w'')]),
       item_type = Some ''remote''\<rparr>]"

definition sample_document :: config_document where
  "sample_document =
     \<lparr>doc_app_id = Some ''app'', doc_default_namespace = Some ''store'',
      doc_adapters = Some sample_items\<rparr>"

definition foreign_item :: config_item where
  "foreign_item =
     \<lparr>item_namespace = Some ''cloud'', item_config = Some (JObj [(''root'', JStr ''s3://b'')]),
      item_type = Some ''s3''\<rparr>"

text \<open>Stand-ins for the JSON primitives, on the blobs the sample adapters use, and for the
  adapter classes: a new adapter reports the configuration it was given.\<close>

definition sample_externals :: externals where
  "sample_externals =
     \<lparr>json_loads =
        (\<lambda>s. if prefix ''{\"root\": \"'' s
             then Inr (JObj [(''root'', JStr (butlast (butlast (drop 10 s))))])
             else if s = ''[1]'' then Inr (JArr [JInt 1])
             else Inl JSONDecodeError),
      json_dumps =
        (\<lambda>j. case j of JObj [(k, JStr r)] \<Rightarrow> ''{\"'' @ k @ ''\": \"'' @ r @ ''\"}'' | _ \<Rightarrow> ''null''),
      loads_document = (\<lambda>s. if s = ''doc'' then Inr sample_document else Inl JSONDecodeError),
      dumps_item = (\<lambda>i. case item_namespace i of None \<Rightarrow> ''{}'' | Some n \<Rightarrow> n),
      new_adapter =
        (\<lambda>cls cfg. Inr \<lparr>adapter_type = cls, create_corpus_path = (\<lambda>p. None),
                         adapter_fetch_config = Some cfg\<rparr>)\<rparr>"

definition export_manager :: storage_manager where
  "export_manager =
     mount (mount (mount sample_manager ''data'' (Some (sample_adapter ''local'' ''/srv'')))
              ''res'' (Some sample_resource))
       ''void'' (Some ((sample_adapter ''adls'' ''x'')\<lparr>adapter_fetch_config := None\<rparr>))"

text \<open>Adapter classes whose \<^verbatim>\<open>update_config\<close> rejects the configuration it is given.\<close>

definition rejecting_externals :: externals where
  "rejecting_externals = sample_externals\<lparr>new_adapter := (\<lambda>cls cfg. Inl TypeError)\<rparr>"

text \<open>A registry with an adapter whose blob is the JSON array \<^verbatim>\<open>[1]\<close>.\<close>

definition list_blob_manager :: storage_manager where
  "list_blob_manager =
     mount (mount sample_manager ''data'' (Some (sample_adapter ''local'' ''/srv'')))
       ''list'' (Some ((sample_adapter ''adls'' ''x'')\<lparr>adapter_fetch_config := Some ''[1]''\<rparr>))"

definition sample_ops :: "registry_op list" where
  "sample_ops =
     [Mount ''data'' (Some (sample_adapter ''local'' ''/srv'')), Unmount ''cdm'',
      MountFromConfig ''doc'' True, Unmount ''local'', Mount ''x'' None]"

section \<open>Properties of the path resolver\<close>

lemmas path_defs = create_absolute_corpus_path_def contains_unsupported_path_format_def
  unsupported_message_def bsl_def split_namespace_path_def resolve_path_def
  format_corpus_path_def py_or_def create_relative_corpus_path_def log_error_def
  log_warning_def

lemma log_error_fields [simp]:
  "namespace_adapters (log_error m x sm) = namespace_adapters sm"
  "namespace_folders (log_error m x sm) = namespace_folders sm"
  "system_defined_namespaces (log_error m x sm) = system_defined_namespaces sm"
  "default_namespace (log_error m x sm) = default_namespace sm"
  "app_id (log_error m x sm) = app_id sm"
  "logger (log_error m x sm) = logger sm @ [LogError m x]"
  by (simp_all add: log_error_def)

subsection \<open>Strings: finding the colon, and patterns across a concatenation\<close>

lemma str_find_append:
  "c \<notin> set xs \<Longrightarrow> str_find c (xs @ c # ys) = Some (length xs)"
  by (induction xs) auto

lemma str_find_None: "str_find c xs = None \<longleftrightarrow> c \<notin> set xs"
  by (induction xs) auto

lemma split_namespace_path_plain:
  "CHR '':'' \<notin> set p \<Longrightarrow> split_namespace_path p = ([], p)"
  by (simp add: split_namespace_path_def str_find_None [THEN iffD2])

lemma split_namespace_path_join:
  "CHR '':'' \<notin> set ns \<Longrightarrow> split_namespace_path (ns @ CHR '':'' # r) = (ns, r)"
  by (simp add: split_namespace_path_def str_find_append)

lemma split_namespace_path_colon:
  "CHR '':'' \<in> set p \<Longrightarrow> split_namespace_path p = (ns, rem) \<Longrightarrow> p = ns @ CHR '':'' # rem"
proof -
  have "str_find c xs = Some i \<Longrightarrow> xs = take i xs @ c # drop (Suc i) xs" for c xs i
    by (induction xs arbitrary: i) (auto split: if_splits)
  moreover assume "CHR '':'' \<in> set p" "split_namespace_path p = (ns, rem)"
  ultimately show ?thesis
    by (auto simp: split_namespace_path_def str_find_None split: option.splits)
qed

lemma split3:
  "[a, b, c] = xs1 @ xs2 \<longleftrightarrow>
     (xs1 = [] \<and> xs2 = [a, b, c]) \<or> (xs1 = [a] \<and> xs2 = [b, c])
     \<or> (xs1 = [a, b] \<and> xs2 = [c]) \<or> (xs1 = [a, b, c] \<and> xs2 = [])"
  by (auto simp: Cons_eq_append_conv)

text \<open>An occurrence of a three-character pattern in \<open>xs @ ys\<close> lies in \<open>xs\<close>, in \<open>ys\<close>, or
  across the seam in one of two ways.\<close>

lemma sublist3_append:
  "sublist [a, b, c] (xs @ ys) \<longleftrightarrow>
     sublist [a, b, c] xs \<or> sublist [a, b, c] ys
     \<or> (suffix [a] xs \<and> prefix [b, c] ys) \<or> (suffix [a, b] xs \<and> prefix [c] ys)"
  unfolding sublist_append split3
  by (auto intro: suffix_imp_sublist prefix_imp_sublist)

lemma suffix_last1: "suffix [a] xs \<Longrightarrow> last xs = a"
  by (auto simp: suffix_def)

lemma suffix_last2: "suffix [a, b] xs \<Longrightarrow> last xs = b"
  by (auto simp: suffix_def)

lemma prefix2_append:
  "xs \<noteq> [] \<Longrightarrow> y \<noteq> b \<Longrightarrow> prefix [a, b] (xs @ y # ys) \<longleftrightarrow> prefix [a, b] xs"
  by (cases xs; cases "tl xs") auto

lemma sublist3_sep:
  assumes "a \<noteq> s" "b \<noteq> s" "c \<noteq> s"
  shows "sublist [a, b, c] (xs @ s # ys) \<longleftrightarrow> sublist [a, b, c] xs \<or> sublist [a, b, c] ys"
  using assms by (auto simp: sublist3_append sublist_Cons_right)

lemma unsupported_message_None:
  "unsupported_message s = None \<longleftrightarrow>
     \<not> prefix ''./'' s \<and> \<not> prefix [CHR ''.'', bsl] s \<and> \<not> sublist ''../'' s
     \<and> \<not> sublist [CHR ''.'', CHR ''.'', bsl] s \<and> \<not> sublist ''/./'' s
     \<and> \<not> sublist [bsl, CHR ''.'', bsl] s"
  by (auto simp: unsupported_message_def)

lemma unsupported_message_Some:
  "prefix ''./'' p \<or> prefix [CHR ''.'', bsl] p \<or> sublist ''../'' p
     \<or> sublist [CHR ''.'', CHR ''.'', bsl] p \<or> sublist ''/./'' p
     \<or> sublist [bsl, CHR ''.'', bsl] p \<Longrightarrow> \<exists>m. unsupported_message p = Some m"
  by (auto simp: unsupported_message_def)

text \<open>A well-formed folder path that ends in a slash, followed by a well-formed relative
  path, is well-formed.\<close>

lemma folder_join_ok:
  assumes fp: "unsupported_message fp = None" "fp \<noteq> []" "last fp = CHR ''/''"
    and p: "unsupported_message p = None" "p \<noteq> []" "hd p \<noteq> CHR ''/''"
  shows "unsupported_message (fp @ p) = None"
proof -
  have 1: "\<not> prefix ''./'' (fp @ p)" "\<not> prefix [CHR ''.'', bsl] (fp @ p)"
    using fp p
    by (cases fp; cases "tl fp"; cases p; auto simp: unsupported_message_None bsl_def)+
  have 2: "\<not> sublist [a, b, c] fp \<Longrightarrow> \<not> sublist [a, b, c] p \<Longrightarrow> a \<noteq> CHR ''/'' \<Longrightarrow>
       b \<noteq> CHR ''/'' \<Longrightarrow> \<not> sublist [a, b, c] (fp @ p)" for a b c
    using fp(3) by (auto simp: sublist3_append dest: suffix_last1 suffix_last2)
  have 3: "\<not> sublist ''/./'' (fp @ p)"
    using fp p by (auto simp: sublist3_append unsupported_message_None dest: suffix_last2)
  show ?thesis
    using fp(1) p(1) 1 3 2 [of "CHR ''.''" "CHR ''.''"] 2 [of bsl "CHR ''.''"]
    by (simp add: unsupported_message_None bsl_def)
qed

lemma namespace_join_ok:
  assumes "unsupported_message ns = None" "ns \<noteq> []" "unsupported_message r = None"
  shows "unsupported_message (ns @ CHR '':'' # r) = None"
  using assms
  by (simp add: unsupported_message_None sublist3_sep prefix2_append bsl_def)

subsection \<open>The two branches of \<^verbatim>\<open>create_absolute_corpus_path\<close>\<close>

lemma absolute_of_absolute:
  assumes "unsupported_message q = None" and "split_namespace_path q = (ns, rem)"
    and "hd rem = CHR ''/''" and "rem \<noteq> []" and "ns \<noteq> []"
    and "obj_prefix_namespace obj = Inr (pfx, cns)"
    and "truthy pfx \<longrightarrow> unsupported_message (the pfx) = None \<and> last (the pfx) = CHR ''/''"
  shows "create_absolute_corpus_path sm q obj = (Inr (Some (ns @ CHR '':'' # rem)), sm)"
  using assms
  by (cases rem) (auto simp: create_absolute_corpus_path_def
      contains_unsupported_path_format_def resolve_path_def format_corpus_path_def py_or_def
      Let_def)

lemma relative_of_absolute:
  assumes c: "namespace c = Some cns" "folder_path c = Some fp"
    and cns: "cns \<noteq> []" "CHR '':'' \<notin> set cns" "unsupported_message cns = None"
    and fp: "unsupported_message fp = None" "hd fp = CHR ''/''" "fp \<noteq> []" "last fp = CHR ''/''"
    and p: "unsupported_message p = None" "p \<noteq> []" "hd p \<noteq> CHR ''/''"
  shows "create_relative_corpus_path sm (cns @ CHR '':'' # fp @ p) (Some c) = (Inr (Some p), sm)"
proof -
  let ?q = "cns @ CHR '':'' # fp @ p"
  have ok: "unsupported_message ?q = None"
    using cns fp p by (intro namespace_join_ok folder_join_ok)
  have sp: "split_namespace_path ?q = (cns, fp @ p)"
    using cns by (rule_tac split_namespace_path_join)
  have "create_absolute_corpus_path sm ?q (Some (Container c)) = (Inr (Some ?q), sm)"
    using ok sp fp cns c
    by (intro absolute_of_absolute [where pfx = "Some fp" and cns = "Some cns"]) auto
  then show ?thesis
    using c cns fp by (simp add: create_relative_corpus_path_def Let_def)
qed

lemma absolute_of_relative_full:
  assumes "unsupported_message p = None" and "split_namespace_path p = (ns, rem)"
    and "rem \<noteq> []" and "hd rem \<noteq> CHR ''/''"
    and "obj_prefix_namespace (Some obj) = Inr (Some fp, Some cns)"
    and "fp \<noteq> []" and "unsupported_message fp = None" and "cns \<noteq> []"
  shows "create_absolute_corpus_path sm p (Some obj) =
           (if ns = [] \<or> ns = cns
            then Inr (Some (cns @ '':'' @ (if last fp = CHR ''/'' then fp else fp @ ''/'') @ rem))
            else Inr None,
            sm\<lparr>logger := logger sm @
                 (if last fp = CHR ''/'' then []
                  else [LogWarning
                          ''Expected path prefix to end in /, but it didn't. Appended the /''
                          (Some fp)]) @
                 (if ns = [] \<or> ns = cns then []
                  else [LogWarning (''The namespace \"'' @ ns @
                          ''\" found on the path does not match the namespace found on the object'')
                          None])\<rparr>)"
  using assms
  by (cases rem) (auto simp: create_absolute_corpus_path_def
      contains_unsupported_path_format_def resolve_path_def format_corpus_path_def py_or_def
      Let_def log_warning_def)

lemma relative_without_namespace:
  "\<not> truthy (namespace c) \<Longrightarrow>
   create_relative_corpus_path sm q (Some c) = create_absolute_corpus_path sm q (Some (Container c))"
  by (auto simp: create_relative_corpus_path_def split: prod.splits sum.splits)

subsection \<open>Claims about the path resolver\<close>

text \<open>
  Claim C1, as the code has it. Take a container whose namespace is not empty, has no
  colon and is well-formed, and whose folder path is well-formed and starts and ends with a
  slash; and a well-formed path whose namespace prefix is empty or the container's and
  whose remainder is well-formed, not empty and relative. Then
  \<^verbatim>\<open>create_absolute_corpus_path\<close> returns \<open>namespace:folder_path + remainder\<close> and leaves the
  manager as it was, and \<^verbatim>\<open>create_relative_corpus_path\<close> of that result, against the same
  container and in any state of the manager, returns the remainder: the path itself when
  it has no colon, the path without its namespace prefix otherwise. Against a container
  without a namespace, \<^verbatim>\<open>create_relative_corpus_path\<close> returns what
  \<^verbatim>\<open>create_absolute_corpus_path\<close> returns, for every path: nothing is stripped.
\<close>

theorem round_trip_relative:
  "(namespace c = Some cns \<and> folder_path c = Some fp \<and>
    cns \<noteq> [] \<and> CHR '':'' \<notin> set cns \<and> unsupported_message cns = None \<and>
    unsupported_message fp = None \<and> fp \<noteq> [] \<and> hd fp = CHR ''/'' \<and> last fp = CHR ''/'' \<and>
    unsupported_message p = None \<and> split_namespace_path p = (ns, rem) \<and> (ns = [] \<or> ns = cns) \<and>
    unsupported_message rem = None \<and> rem \<noteq> [] \<and> hd rem \<noteq> CHR ''/'' \<longrightarrow>
      create_absolute_corpus_path sm p (Some (Container c))
        = (Inr (Some (cns @ '':'' @ fp @ rem)), sm)
      \<and> create_relative_corpus_path sm' (cns @ '':'' @ fp @ rem) (Some c)
          = (Inr (Some rem), sm')
      \<and> (CHR '':'' \<notin> set p \<longrightarrow> rem = p)
      \<and> (CHR '':'' \<in> set p \<longrightarrow> p = ns @ '':'' @ rem))
   \<and> (\<not> truthy (namespace c') \<longrightarrow>
        create_relative_corpus_path sm q (Some c')
          = create_absolute_corpus_path sm q (Some (Container c')))"
proof (intro conjI impI; (elim conjE)?)
  assume h: "namespace c = Some cns" "folder_path c = Some fp" "cns \<noteq> []"
    "CHR '':'' \<notin> set cns" "unsupported_message cns = None" "unsupported_message fp = None"
    "fp \<noteq> []" "hd fp = CHR ''/''" "last fp = CHR ''/''" "unsupported_message p = None"
    "split_namespace_path p = (ns, rem)" "ns = [] \<or> ns = cns" "unsupported_message rem = None"
    "rem \<noteq> []" "hd rem \<noteq> CHR ''/''"
  have "obj_prefix_namespace (Some (Container c)) = Inr (Some fp, Some cns)"
    using h by simp
  from absolute_of_relative_full [OF h(10,11,14,15) this h(7,6,3), of sm] h(9,12)
  show "create_absolute_corpus_path sm p (Some (Container c))
        = (Inr (Some (cns @ '':'' @ fp @ rem)), sm)"
    by simp
  show "create_relative_corpus_path sm' (cns @ '':'' @ fp @ rem) (Some c) = (Inr (Some rem), sm')"
    using relative_of_absolute [OF h(1,2,3,4,5,6,8,7,9,13,14,15), of sm'] by simp
  show "rem = p" if "CHR '':'' \<notin> set p"
    using h(11) split_namespace_path_plain [OF that] by simp
  show "p = ns @ '':'' @ rem" if "CHR '':'' \<in> set p"
    using split_namespace_path_colon [OF that h(11)] by simp
next
  assume "\<not> truthy (namespace c')"
  then show "create_relative_corpus_path sm q (Some c')
          = create_absolute_corpus_path sm q (Some (Container c'))"
    by (rule relative_without_namespace)
qed

theorem round_trip_relative_witness:
  "create_absolute_corpus_path sample_manager ''foo/bar.txt'' (Some (Container data_folder))
     = (Inr (Some ''local:/data/foo/bar.txt''), sample_manager)
   \<and> create_relative_corpus_path sample_manager ''local:/data/foo/bar.txt''
        (Some data_folder) = (Inr (Some ''foo/bar.txt''), sample_manager)
   \<and> create_absolute_corpus_path sample_manager ''local:foo/bar.txt''
        (Some (Container data_folder))
     = (Inr (Some ''local:/data/foo/bar.txt''), sample_manager)
   \<and> create_relative_corpus_path sample_manager ''/data/foo/bar.txt'' (Some bare_folder)
     = create_absolute_corpus_path sample_manager ''/data/foo/bar.txt''
         (Some (Container bare_folder))"
  using round_trip_relative [of data_folder "''local''" "''/data/''" "''foo/bar.txt''" "[]"
      "''foo/bar.txt''" sample_manager sample_manager bare_folder "''/data/foo/bar.txt''"]
    round_trip_relative [of data_folder "''local''" "''/data/''" "''local:foo/bar.txt''"
      "''local''" "''foo/bar.txt''" sample_manager sample_manager bare_folder
      "''/data/foo/bar.txt''"]
  by (simp add: data_folder_def bare_folder_def unsupported_message_def bsl_def sublist_code
      split_namespace_path_def)

text \<open>
  Claim C1 as stated fails. Against a container without a namespace nothing is stripped:
  the round trip of \<^verbatim>\<open>foo/bar.txt\<close> gives \<^verbatim>\<open>/data/foo/bar.txt\<close>. And a path that carries
  the container's namespace comes back without it.
\<close>

theorem round_trip_counterexample:
  "create_absolute_corpus_path sample_manager ''foo/bar.txt'' (Some (Container bare_folder))
     = (Inr (Some ''/data/foo/bar.txt''), sample_manager)
   \<and> fst (create_relative_corpus_path sample_manager ''/data/foo/bar.txt'' (Some bare_folder))
       = Inr (Some ''/data/foo/bar.txt'')
   \<and> create_absolute_corpus_path sample_manager ''local:foo/bar.txt''
        (Some (Container data_folder))
       = (Inr (Some ''local:/data/foo/bar.txt''), sample_manager)
   \<and> fst (create_relative_corpus_path sample_manager ''local:/data/foo/bar.txt''
            (Some data_folder)) = Inr (Some ''foo/bar.txt'')"
  by (simp add: path_defs sublist_code data_folder_def bare_folder_def sample_manager_def
      init_def mount_def Let_def)

text \<open>
  Claim C2, as the code has it. Take a well-formed path whose remainder is not empty and
  does not start with a slash, and a context object with a non-empty namespace and a
  non-empty, well-formed folder path. If the path's namespace prefix is empty or equal to
  the context's, the result is the final namespace, a colon, the folder path (completed
  with a slash, with a warning, when it does not end in one) and the remainder; the final
  namespace is the first non-empty of context namespace, path namespace and default
  namespace, which here is the context's. If the prefix is not empty and differs from the
  context's namespace, the result is \<^verbatim>\<open>None\<close> and the mismatch is logged as a warning.
\<close>

theorem relative_path_resolution:
  assumes "unsupported_message p = None" and "split_namespace_path p = (ns, rem)"
    and "rem \<noteq> []" and "hd rem \<noteq> CHR ''/''"
    and "obj_prefix_namespace (Some obj) = Inr (Some fp, Some cns)"
    and "fp \<noteq> []" and "unsupported_message fp = None" and "cns \<noteq> []"
  shows "(ns = [] \<or> ns = cns \<longrightarrow>
            fst (create_absolute_corpus_path sm p (Some obj)) =
              Inr (Some (the (py_or (Some cns) (py_or (Some ns) (default_namespace sm))) @ '':'' @
                         (if last fp = CHR ''/'' then fp else fp @ ''/'') @ rem))
            \<and> py_or (Some cns) (py_or (Some ns) (default_namespace sm)) = Some cns
            \<and> snd (create_absolute_corpus_path sm p (Some obj)) =
                sm\<lparr>logger := logger sm @
                  (if last fp = CHR ''/'' then []
                   else [LogWarning
                           ''Expected path prefix to end in /, but it didn't. Appended the /''
                           (Some fp)])\<rparr>)
       \<and> (ns \<noteq> [] \<and> ns \<noteq> cns \<longrightarrow>
            fst (create_absolute_corpus_path sm p (Some obj)) = Inr None
            \<and> snd (create_absolute_corpus_path sm p (Some obj)) =
                sm\<lparr>logger := logger sm @
                  (if last fp = CHR ''/'' then []
                   else [LogWarning
                           ''Expected path prefix to end in /, but it didn't. Appended the /''
                           (Some fp)]) @
                  [LogWarning (''The namespace \"'' @ ns @
                     ''\" found on the path does not match the namespace found on the object'')
                     None]\<rparr>)"
  using assms(8) by (simp add: absolute_of_relative_full [OF assms] py_or_def)

theorem relative_path_resolution_witness:
  "fst (create_absolute_corpus_path sample_manager ''foo/bar.txt''
          (Some (Container data_folder)))
     = Inr (Some ''local:/data/foo/bar.txt'')
   \<and> fst (create_absolute_corpus_path sample_manager ''other:foo.txt''
          (Some (Container data_folder))) = Inr None
   \<and> logger (snd (create_absolute_corpus_path sample_manager ''other:foo.txt''
          (Some (Container data_folder)))) =
       logger sample_manager @
       [LogWarning ''The namespace \"other\" found on the path does not match the namespace found on the object'' None]"
  using relative_path_resolution [of "''foo/bar.txt''" "[]" "''foo/bar.txt''"
      "Container data_folder" "''/data/''" "''local''" sample_manager]
    relative_path_resolution [of "''other:foo.txt''" "''other''" "''foo.txt''"
      "Container data_folder" "''/data/''" "''local''" sample_manager]
  by (simp add: unsupported_message_def split_namespace_path_def sublist_code data_folder_def
      py_or_def bsl_def)

text \<open>
  Claim C2 as stated fails: \<^verbatim>\<open>other:foo.txt\<close> has the relative remainder \<^verbatim>\<open>foo.txt\<close>, the
  context has namespace \<^verbatim>\<open>local\<close> and folder path \<^verbatim>\<open>/data/\<close>, and the result is \<^verbatim>\<open>None\<close>,
  with a warning, instead of \<^verbatim>\<open>local:/data/foo.txt\<close>.
\<close>

theorem namespace_mismatch_counterexample:
  "snd (split_namespace_path ''other:foo.txt'') = ''foo.txt''
   \<and> fst (create_absolute_corpus_path sample_manager ''other:foo.txt''
            (Some (Container data_folder))) = Inr None"
  by (simp add: path_defs sublist_code data_folder_def)

text \<open>
  Claim C3, as the code has it. A path that starts with \<^verbatim>\<open>./\<close> or \<^verbatim>\<open>.\\<close>, or contains
  \<^verbatim>\<open>../\<close>, \<^verbatim>\<open>..\\<close>, \<^verbatim>\<open>/./\<close> or \<^verbatim>\<open>\.\\<close> anywhere, is reported as malformed with one logged
  error naming the path, and \<^verbatim>\<open>create_absolute_corpus_path\<close> returns \<^verbatim>\<open>None\<close> for every
  context object, without raising and with nothing else logged.
\<close>

theorem malformed_path_rejected:
  assumes "prefix ''./'' p \<or> prefix [CHR ''.'', bsl] p \<or> sublist ''../'' p
     \<or> sublist [CHR ''.'', CHR ''.'', bsl] p \<or> sublist ''/./'' p
     \<or> sublist [bsl, CHR ''.'', bsl] p"
  shows "fst (contains_unsupported_path_format sm p)
     \<and> (\<exists>m. snd (contains_unsupported_path_format sm p)
              = sm\<lparr>logger := logger sm @ [LogError m (Some p)]\<rparr>)
     \<and> fst (create_absolute_corpus_path sm p obj) = Inr None
     \<and> snd (create_absolute_corpus_path sm p obj) = snd (contains_unsupported_path_format sm p)"
proof -
  from assms obtain m where m: "unsupported_message p = Some m"
    using unsupported_message_Some by blast
  show ?thesis
    by (auto simp: m create_absolute_corpus_path_def contains_unsupported_path_format_def
        log_error_def)
qed

theorem malformed_path_rejected_witness:
  "fst (contains_unsupported_path_format sample_manager ''a/../b'')
   \<and> fst (create_absolute_corpus_path sample_manager ''a/../b''
            (Some (Container data_folder))) = Inr None"
  using malformed_path_rejected [of "''a/../b''" sample_manager "Some (Container data_folder)"]
  by (simp add: sublist_code)

text \<open>
  Claim C3 as stated fails: \<^verbatim>\<open>a./b\<close> contains \<^verbatim>\<open>./\<close>, which the check tests at the start
  of the path only; the check accepts it, and it is resolved.
\<close>

theorem dot_slash_inside_counterexample:
  "sublist ''./'' ''a./b''
   \<and> \<not> fst (contains_unsupported_path_format sample_manager ''a./b'')
   \<and> fst (create_absolute_corpus_path sample_manager ''a./b'' (Some (Container data_folder)))
       = Inr (Some ''local:/data/a./b'')"
  by (simp add: path_defs sublist_code data_folder_def)

text \<open>
  Claim C4 fails on the code: both operations raise. An empty path and a path whose
  remainder is empty raise \<^verbatim>\<open>IndexError\<close> at \<^verbatim>\<open>path_tuple[1][0]\<close>, in every state of the
  manager; and when the absolute step returns \<^verbatim>\<open>None\<close> for a malformed path,
  \<^verbatim>\<open>create_relative_corpus_path\<close> raises \<^verbatim>\<open>AttributeError\<close> at \<^verbatim>\<open>new_path.startswith\<close>.
\<close>

theorem resolvers_raise:
  "fst (create_absolute_corpus_path sm [] None) = Inl IndexError
   \<and> fst (create_absolute_corpus_path sm ''local:'' None) = Inl IndexError
   \<and> fst (create_relative_corpus_path sm [] None) = Inl IndexError
   \<and> fst (create_relative_corpus_path sm ''../x'' (Some data_folder)) = Inl AttributeError"
  by (simp add: path_defs sublist_code data_folder_def)

section \<open>Properties of the namespace registry\<close>

text \<open>
  Claim C10. \<^verbatim>\<open>mount\<close> without an adapter returns the manager as it was. With an adapter,
  the namespace maps to that adapter and to a fresh root folder with the namespace and
  folder path \<^verbatim>\<open>/\<close>; the entries of every other namespace, and their order, are those of
  before in both dictionaries; the namespace leaves the system-defined set; the default
  namespace, the application id and the log are unchanged.
\<close>

theorem mount_frame:
  "mount sm ns None = sm \<and>
   map_of (namespace_adapters (mount sm ns (Some a))) ns = Some a \<and>
   map_of (namespace_folders (mount sm ns (Some a))) ns
     = Some \<lparr>namespace = Some ns, folder_path = Some ''/''\<rparr> \<and>
   AList.delete ns (namespace_adapters (mount sm ns (Some a)))
     = AList.delete ns (namespace_adapters sm) \<and>
   AList.delete ns (namespace_folders (mount sm ns (Some a)))
     = AList.delete ns (namespace_folders sm) \<and>
   system_defined_namespaces (mount sm ns (Some a)) = system_defined_namespaces sm - {ns} \<and>
   default_namespace (mount sm ns (Some a)) = default_namespace sm \<and>
   app_id (mount sm ns (Some a)) = app_id sm \<and>
   logger (mount sm ns (Some a)) = logger sm"
  by (simp add: mount_def update_conv' delete_update_same)

theorem mount_frame_witness:
  "mount sample_manager ''local'' None = sample_manager \<and>
   map_of (namespace_adapters (mount sample_manager ''local'' (Some sample_resource))) ''local''
     = Some sample_resource \<and>
   system_defined_namespaces (mount sample_manager ''local'' (Some sample_resource)) = {''cdm''}"
  using mount_frame [of sample_manager "''local''" sample_resource]
  by (auto simp: sample_manager_def init_def mount_def Let_def)

text \<open>
  Claim C7. After \<^verbatim>\<open>unmount\<close> of a namespace other than \<^verbatim>\<open>cdm\<close>, \<^verbatim>\<open>fetch_adapter\<close> on it
  returns \<^verbatim>\<open>None\<close> and logs that the adapter was not found. After \<^verbatim>\<open>unmount\<close> of \<^verbatim>\<open>cdm\<close>,
  \<^verbatim>\<open>fetch_adapter\<close> returns the resource adapter mounted in its place, and the root
  folder is there as well.
\<close>

theorem unmount_then_fetch:
  "(ns \<noteq> ''cdm'' \<longrightarrow>
      fst (fetch_adapter (unmount ra sm ns) ns) = None \<and>
      logger (snd (fetch_adapter (unmount ra sm ns) ns)) =
        logger sm @
          [LogError (''Adapter not found for the namespace '' @ [CHR 0x27] @ ns @ [CHR 0x27])
             None])
   \<and> fst (fetch_adapter (unmount ra sm ''cdm'') ''cdm'') = Some ra
   \<and> fst (fetch_root_folder (unmount ra sm ''cdm'') (Some ''cdm''))
        = Some \<lparr>namespace = Some ''cdm'', folder_path = Some ''/''\<rparr>"
  by (simp add: unmount_def fetch_adapter_def fetch_root_folder_def mount_def Let_def
      update_conv' delete_conv')

theorem unmount_then_fetch_witness:
  "fst (fetch_adapter (unmount sample_resource sample_manager ''local'') ''local'') = None
   \<and> fst (fetch_adapter (unmount sample_resource sample_manager ''cdm'') ''cdm'')
       = Some sample_resource"
  using unmount_then_fetch [of "''local''" sample_resource sample_manager]
  by simp

subsection \<open>First-match dispatch\<close>

lemma try_adapters_skip:
  "\<forall>(k, b) \<in> set pre. \<not> truthy (create_corpus_path b p) \<Longrightarrow>
   try_adapters (pre @ rest) p result =
     try_adapters rest p
       (if pre = [] then result else create_corpus_path (snd (last pre)) p)"
  by (induction pre arbitrary: result) (auto simp: Let_def)

lemma try_adapters_none:
  "\<forall>(k, b) \<in> set xs. \<not> truthy (create_corpus_path b p) \<Longrightarrow> \<not> truthy result \<Longrightarrow>
   \<not> truthy (try_adapters xs p result)"
  by (induction xs arbitrary: result) (auto simp: Let_def)

text \<open>
  Claim C8. When the registry is \<open>pre @ (key, a) # post\<close>, no adapter of \<open>pre\<close> gives a
  non-empty translation of the path and \<open>a\<close> gives the non-empty \<open>r\<close>, the result is
  \<open>key:r\<close> and nothing is logged, whatever \<open>pre\<close> and \<open>post\<close> hold. When no mounted adapter
  gives a non-empty translation, the result is empty (\<^verbatim>\<open>None\<close> or the empty string) and
  one error is logged.
\<close>

theorem first_match_dispatch:
  "(namespace_adapters sm = pre @ (key, a) # post \<and>
    (\<forall>(k, b) \<in> set pre. \<not> truthy (create_corpus_path b p)) \<and>
    create_corpus_path a p = Some r \<and> r \<noteq> [] \<longrightarrow>
      adapter_path_to_corpus_path sm p = (Some (key @ '':'' @ r), sm))
   \<and> ((\<forall>(k, b) \<in> set (namespace_adapters sm). \<not> truthy (create_corpus_path b p)) \<longrightarrow>
      \<not> truthy (fst (adapter_path_to_corpus_path sm p)) \<and>
      logger (snd (adapter_path_to_corpus_path sm p)) =
        logger sm @
          [LogError (''No registered storage adapter understood the path \"'' @ p @ ''\"'')
             (Some ''adapter_path_to_corpus_path'')])"
  by (auto simp: adapter_path_to_corpus_path_def try_adapters_skip try_adapters_none Let_def)

theorem first_match_dispatch_witness:
  "adapter_path_to_corpus_path sample_manager ''https://host/x.json''
     = (Some ''cdm:/x.json'', sample_manager)
   \<and> \<not> truthy (fst (adapter_path_to_corpus_path sample_manager ''ftp://elsewhere''))"
  using first_match_dispatch [of sample_manager
      "[(''local'', sample_adapter ''local'' ''/home/user'')]" "''cdm''"
      "sample_adapter ''github'' ''https://host''" "[]" "''https://host/x.json''" "''/x.json''"]
    first_match_dispatch [of sample_manager "[]" "''cdm''"
      "sample_adapter ''github'' ''https://host''" "[]" "''ftp://elsewhere''" "[]"]
  by (simp add: sample_manager_def init_def mount_def sample_adapter_def Let_def)

subsection \<open>The pairing of adapters and root folders\<close>

lemma registry_paired_log_error [simp]:
  "registry_paired (log_error m x sm) = registry_paired sm"
  by (simp add: registry_paired_def)

lemma registry_paired_fields:
  "registry_paired (sm\<lparr>app_id := x\<rparr>) = registry_paired sm"
  "registry_paired (sm\<lparr>default_namespace := y\<rparr>) = registry_paired sm"
  "registry_paired (sm\<lparr>system_defined_namespaces := S\<rparr>) = registry_paired sm"
  by (simp_all add: registry_paired_def)

lemma list_all_update:
  "list_all P al \<Longrightarrow> P (k, v) \<Longrightarrow> list_all P (AList.update k v al)"
  by (induction al) auto

lemma list_all_delete:
  "list_all P al \<Longrightarrow> list_all P (AList.delete k al)"
  by (induction al) auto

lemma registry_paired_mount:
  "registry_paired sm \<Longrightarrow> registry_paired (mount sm ns ad)"
  by (cases ad) (auto simp: registry_paired_def mount_def dom_update list_all_update)

lemma registry_paired_delete:
  "registry_paired sm \<Longrightarrow>
   registry_paired (sm\<lparr>namespace_adapters := AList.delete ns (namespace_adapters sm),
                       namespace_folders := AList.delete ns (namespace_folders sm),
                       system_defined_namespaces := S\<rparr>)"
  by (simp add: registry_paired_def delete_keys list_all_delete)

lemma registry_paired_unmount:
  "registry_paired sm \<Longrightarrow> registry_paired (unmount ra sm ns)"
  by (simp add: unmount_def Let_def registry_paired_mount registry_paired_delete)

lemma registry_paired_mount_items:
  "registry_paired sm \<Longrightarrow> registry_paired (snd (mount_items ext items sm un))"
  by (induction items arbitrary: sm un)
     (auto simp: registry_paired_mount split: option.splits sum.splits)

lemma registry_paired_import_settings [simp]:
  "registry_paired (import_settings doc sm) = registry_paired sm"
  by (simp add: import_settings_def Let_def registry_paired_fields)

lemma registry_paired_mount_from_config:
  assumes "registry_paired sm"
  shows "registry_paired (snd (mount_from_config ext sm cfg flag))"
proof -
  have "registry_paired (snd (mount_items ext items sm' []))"
    if "registry_paired sm'" for items sm'
    using that by (rule registry_paired_mount_items)
  then show ?thesis
    using assms
    by (auto simp: mount_from_config_def Let_def
        split: sum.splits option.splits prod.splits dest!: arg_cong [where f = snd])
qed

lemma registry_paired_run_ops:
  "registry_paired sm \<Longrightarrow> registry_paired (run_ops ext ra sm ops)"
  unfolding run_ops_def
proof (induction ops arbitrary: sm)
  case Nil
  then show ?case by simp
next
  case (Cons op ops)
  have "registry_paired (apply_op ext ra sm op)"
    using Cons.prems
    by (cases op) (simp_all add: registry_paired_mount registry_paired_unmount
        registry_paired_mount_from_config)
  then show ?case using Cons.IH by simp
qed

lemma registry_paired_init: "registry_paired (init la ga aid)"
  by (simp add: init_def Let_def registry_paired_def mount_def)

lemma registry_paired_lookup:
  assumes "registry_paired sm"
  shows "(map_of (namespace_adapters sm) ns \<noteq> None) = (map_of (namespace_folders sm) ns \<noteq> None)"
    and "map_of (namespace_folders sm) ns = Some fd \<Longrightarrow>
         namespace fd = Some ns \<and> folder_path fd = Some ''/''"
proof -
  show "(map_of (namespace_adapters sm) ns \<noteq> None) = (map_of (namespace_folders sm) ns \<noteq> None)"
    using assms by (simp add: registry_paired_def map_of_eq_None_iff)
  show "namespace fd = Some ns \<and> folder_path fd = Some ''/''"
    if "map_of (namespace_folders sm) ns = Some fd"
    using assms map_of_SomeD [OF that] by (auto simp: registry_paired_def list_all_iff)
qed

text \<open>
  Claim C9. The pairing holds after the constructor and is kept by every sequence of
  \<^verbatim>\<open>mount\<close>, \<^verbatim>\<open>unmount\<close> and \<^verbatim>\<open>mount_from_config\<close> (also one that raises midway); under
  it a namespace has an adapter exactly when it has a root folder, and the root folder of
  a namespace carries that namespace and the folder path \<^verbatim>\<open>/\<close>. After \<^verbatim>\<open>mount\<close> of a
  namespace with an adapter, \<^verbatim>\<open>fetch_adapter\<close> returns that adapter and
  \<^verbatim>\<open>fetch_root_folder\<close> returns a root folder with folder path \<^verbatim>\<open>/\<close>. A namespace is a
  non-empty string; the empty string is what \<^verbatim>\<open>split_namespace_path\<close> returns for a path
  without a namespace.
\<close>

theorem registry_pairing:
  "(registry_paired sm \<longrightarrow> registry_paired (run_ops ext ra sm ops))
   \<and> registry_paired (init la ga aid)
   \<and> (registry_paired sm \<longrightarrow>
        (\<forall>k. (map_of (namespace_adapters sm) k \<noteq> None)
               = (map_of (namespace_folders sm) k \<noteq> None)) \<and>
        (\<forall>k fd. map_of (namespace_folders sm) k = Some fd \<longrightarrow>
            namespace fd = Some k \<and> folder_path fd = Some ''/''))
   \<and> fst (fetch_adapter (mount sm ns (Some a)) ns) = Some a
   \<and> (ns \<noteq> [] \<longrightarrow> fst (fetch_root_folder (mount sm ns (Some a)) (Some ns))
          = Some \<lparr>namespace = Some ns, folder_path = Some ''/''\<rparr>)"
  using registry_paired_lookup [of sm]
  by (auto simp: registry_paired_run_ops registry_paired_init fetch_adapter_def
      fetch_root_folder_def mount_def update_conv')

theorem registry_pairing_witness:
  "registry_paired sample_manager
   \<and> registry_paired (run_ops sample_externals sample_resource sample_manager sample_ops)
   \<and> fst (fetch_adapter (mount sample_manager ''data'' (Some sample_resource)) ''data'')
       = Some sample_resource
   \<and> fst (fetch_root_folder (mount sample_manager ''data'' (Some sample_resource))
            (Some ''data''))
       = Some \<lparr>namespace = Some ''data'', folder_path = Some ''/''\<rparr>"
proof -
  have "registry_paired sample_manager"
    by (simp add: sample_manager_def init_def mount_def Let_def registry_paired_def)
  then show ?thesis
    using registry_pairing [of sample_manager sample_externals sample_resource sample_ops
        _ _ _ "''data''" sample_resource]
    by simp
qed

section \<open>Properties of the configuration serializer\<close>

subsection \<open>Export\<close>

lemma fetch_config_adapters_append:
  assumes "\<forall>(ns, a) \<in> set pre.
             adapter_type a \<noteq> ''resource'' \<and> ns \<notin> system_defined_namespaces sm \<and>
             truthy (adapter_fetch_config a) \<longrightarrow>
             json_loads ext (the (adapter_fetch_config a)) = Inr (JObj (blob a))"
  shows "fetch_config_adapters ext (pre @ rest) sm arr =
           fetch_config_adapters ext rest
             (sm\<lparr>logger := logger sm @
                 map (\<lambda>_. LogError ''JSON config constructed by adapter is null or empty.'' None)
                   (filter (\<lambda>(ns, a). adapter_type a \<noteq> ''resource'' \<and>
                               ns \<notin> system_defined_namespaces sm \<and>
                               \<not> truthy (adapter_fetch_config a)) pre)\<rparr>)
             (arr @ map (\<lambda>(ns, a). JObj (AList.update ''namespace'' (JStr ns) (blob a)))
                    (filter (\<lambda>(ns, a). adapter_type a \<noteq> ''resource'' \<and>
                               ns \<notin> system_defined_namespaces sm \<and>
                               truthy (adapter_fetch_config a)) pre))"
  using assms
proof (induction pre arbitrary: sm arr)
  case Nil
  then show ?case by simp
next
  case (Cons x xs)
  obtain ns a where x: "x = (ns, a)" by (cases x)
  have IH: "fetch_config_adapters ext (xs @ rest) sm' arr' =
           fetch_config_adapters ext rest
             (sm'\<lparr>logger := logger sm' @
                 map (\<lambda>_. LogError ''JSON config constructed by adapter is null or empty.'' None)
                   (filter (\<lambda>(ns, a). adapter_type a \<noteq> ''resource'' \<and>
                               ns \<notin> system_defined_namespaces sm \<and>
                               \<not> truthy (adapter_fetch_config a)) xs)\<rparr>)
             (arr' @ map (\<lambda>(ns, a). JObj (AList.update ''namespace'' (JStr ns) (blob a)))
                    (filter (\<lambda>(ns, a). adapter_type a \<noteq> ''resource'' \<and>
                               ns \<notin> system_defined_namespaces sm \<and>
                               truthy (adapter_fetch_config a)) xs))"
    if "system_defined_namespaces sm' = system_defined_namespaces sm" for sm' arr'
    using Cons.IH [of sm' arr'] Cons.prems that by simp
  show ?case
    using Cons.prems
    by (simp add: x IH log_error_def)
qed

lemma fetch_config_adapters_abort:
  assumes "adapter_type a \<noteq> ''resource''" "ns \<notin> system_defined_namespaces sm"
    "truthy (adapter_fetch_config a)"
    "(case json_loads ext (the (adapter_fetch_config a)) of
        Inl e \<Rightarrow> Inl e | Inr j \<Rightarrow> set_item j ''namespace'' (JStr ns)) = Inl e"
  shows "fetch_config_adapters ext ((ns, a) # post) sm arr = (Inl e, sm)"
  using assms by (auto split: sum.splits)

text \<open>
  Claim C6, as the code has it. An adapter is exported when it is not of the \<^verbatim>\<open>resource\<close>
  kind, its namespace is not system-defined and its blob is not empty. When the blob of
  every exported adapter decodes to a JSON object, the adapter sequence of \<^verbatim>\<open>fetch_config\<close>
  is, in registry order, one object per exported adapter: the decoded blob with the key
  \<^verbatim>\<open>namespace\<close> set to the adapter's namespace; one error is logged per adapter skipped for
  an empty blob. When the blob of an exported adapter does not decode, or decodes to
  something that is not an object, and those before it do, \<^verbatim>\<open>fetch_config\<close> raises there
  and no sequence is produced. In both cases the document that is serialized holds the
  sequence under \<^verbatim>\<open>adapters\<close>.
\<close>

theorem export_exclusion:
  "((\<forall>(ns, a) \<in> set (namespace_adapters sm).
       adapter_type a \<noteq> ''resource'' \<and> ns \<notin> system_defined_namespaces sm \<and>
       truthy (adapter_fetch_config a) \<longrightarrow>
       json_loads ext (the (adapter_fetch_config a)) = Inr (JObj (blob a))) \<longrightarrow>
     fetch_config_adapters ext (namespace_adapters sm) sm [] =
       (Inr (map (\<lambda>(ns, a). JObj (AList.update ''namespace'' (JStr ns) (blob a)))
               (filter (\<lambda>(ns, a). adapter_type a \<noteq> ''resource'' \<and>
                          ns \<notin> system_defined_namespaces sm \<and>
                          truthy (adapter_fetch_config a)) (namespace_adapters sm))),
        sm\<lparr>logger := logger sm @
           map (\<lambda>_. LogError ''JSON config constructed by adapter is null or empty.'' None)
             (filter (\<lambda>(ns, a). adapter_type a \<noteq> ''resource'' \<and>
                        ns \<notin> system_defined_namespaces sm \<and>
                        \<not> truthy (adapter_fetch_config a)) (namespace_adapters sm))\<rparr>))
   \<and> (namespace_adapters sm = pre @ (ns0, a0) # post \<and>
      (\<forall>(ns, a) \<in> set pre.
         adapter_type a \<noteq> ''resource'' \<and> ns \<notin> system_defined_namespaces sm \<and>
         truthy (adapter_fetch_config a) \<longrightarrow>
         json_loads ext (the (adapter_fetch_config a)) = Inr (JObj (blob a))) \<and>
      adapter_type a0 \<noteq> ''resource'' \<and> ns0 \<notin> system_defined_namespaces sm \<and>
      truthy (adapter_fetch_config a0) \<and>
      (case json_loads ext (the (adapter_fetch_config a0)) of
         Inl e \<Rightarrow> Inl e | Inr j \<Rightarrow> set_item j ''namespace'' (JStr ns0)) = Inl err \<longrightarrow>
      fetch_config_adapters ext (namespace_adapters sm) sm [] =
        (Inl err,
         sm\<lparr>logger := logger sm @
            map (\<lambda>_. LogError ''JSON config constructed by adapter is null or empty.'' None)
              (filter (\<lambda>(ns, a). adapter_type a \<noteq> ''resource'' \<and>
                         ns \<notin> system_defined_namespaces sm \<and>
                         \<not> truthy (adapter_fetch_config a)) pre)\<rparr>) \<and>
      fst (fetch_config ext sm) = Inl err)
   \<and> fetch_config ext sm =
       (map_sum id
          (\<lambda>arr. json_dumps ext (JObj
             ((if truthy (app_id sm) then [(''appId'', JStr (the (app_id sm)))] else []) @
              [(''defaultNamespace'',
                 (case default_namespace sm of None \<Rightarrow> JNull | Some d \<Rightarrow> JStr d)),
               (''adapters'', JArr arr)])))
          (fst (fetch_config_adapters ext (namespace_adapters sm) sm [])),
        snd (fetch_config_adapters ext (namespace_adapters sm) sm []))"
proof (intro conjI impI; (elim conjE)?)
  assume h: "\<forall>(ns, a) \<in> set (namespace_adapters sm).
       adapter_type a \<noteq> ''resource'' \<and> ns \<notin> system_defined_namespaces sm \<and>
       truthy (adapter_fetch_config a) \<longrightarrow>
       json_loads ext (the (adapter_fetch_config a)) = Inr (JObj (blob a))"
  show "fetch_config_adapters ext (namespace_adapters sm) sm [] =
       (Inr (map (\<lambda>(ns, a). JObj (AList.update ''namespace'' (JStr ns) (blob a)))
               (filter (\<lambda>(ns, a). adapter_type a \<noteq> ''resource'' \<and>
                          ns \<notin> system_defined_namespaces sm \<and>
                          truthy (adapter_fetch_config a)) (namespace_adapters sm))),
        sm\<lparr>logger := logger sm @
           map (\<lambda>_. LogError ''JSON config constructed by adapter is null or empty.'' None)
             (filter (\<lambda>(ns, a). adapter_type a \<noteq> ''resource'' \<and>
                        ns \<notin> system_defined_namespaces sm \<and>
                        \<not> truthy (adapter_fetch_config a)) (namespace_adapters sm))\<rparr>)"
    using fetch_config_adapters_append [OF h, of "[]" "[]"] by simp
next
  assume h: "namespace_adapters sm = pre @ (ns0, a0) # post"
    "\<forall>(ns, a) \<in> set pre.
         adapter_type a \<noteq> ''resource'' \<and> ns \<notin> system_defined_namespaces sm \<and>
         truthy (adapter_fetch_config a) \<longrightarrow>
         json_loads ext (the (adapter_fetch_config a)) = Inr (JObj (blob a))"
    "adapter_type a0 \<noteq> ''resource''" "ns0 \<notin> system_defined_namespaces sm"
    "truthy (adapter_fetch_config a0)"
    "(case json_loads ext (the (adapter_fetch_config a0)) of
         Inl e \<Rightarrow> Inl e | Inr j \<Rightarrow> set_item j ''namespace'' (JStr ns0)) = Inl err"
  show full: "fetch_config_adapters ext (namespace_adapters sm) sm [] =
      (Inl err,
       sm\<lparr>logger := logger sm @
          map (\<lambda>_. LogError ''JSON config constructed by adapter is null or empty.'' None)
            (filter (\<lambda>(ns, a). adapter_type a \<noteq> ''resource'' \<and>
                       ns \<notin> system_defined_namespaces sm \<and>
                       \<not> truthy (adapter_fetch_config a)) pre)\<rparr>)"
    unfolding h(1) fetch_config_adapters_append [OF h(2)]
    by (subst fetch_config_adapters_abort [where e = err]) (use h in simp_all)
  show "fst (fetch_config ext sm) = Inl err"
    by (simp add: fetch_config_def full)
next
  show "fetch_config ext sm =
       (map_sum id
          (\<lambda>arr. json_dumps ext (JObj
             ((if truthy (app_id sm) then [(''appId'', JStr (the (app_id sm)))] else []) @
              [(''defaultNamespace'',
                 (case default_namespace sm of None \<Rightarrow> JNull | Some d \<Rightarrow> JStr d)),
               (''adapters'', JArr arr)])))
          (fst (fetch_config_adapters ext (namespace_adapters sm) sm [])),
        snd (fetch_config_adapters ext (namespace_adapters sm) sm []))"
    by (auto simp: fetch_config_def split: prod.splits sum.splits)
qed

theorem export_exclusion_witness:
  "fst (fetch_config_adapters sample_externals (namespace_adapters export_manager)
          export_manager [])
     = Inr [JObj [(''root'', JStr ''/srv''), (''namespace'', JStr ''data'')]]
   \<and> logger (snd (fetch_config_adapters sample_externals (namespace_adapters export_manager)
                    export_manager []))
     = [LogError ''JSON config constructed by adapter is null or empty.'' None]
   \<and> fst (fetch_config sample_externals list_blob_manager) = Inl TypeError"
  using export_exclusion [where sm = export_manager and ext = sample_externals and blob =
      "\<lambda>a. [(''root'', JStr (butlast (butlast (drop 10 (the (adapter_fetch_config a))))))]"
      and pre = "[]" and ?ns0.0 = "''x''" and ?a0.0 = sample_resource and post = "[]"]
    export_exclusion [where sm = list_blob_manager and ext = sample_externals and blob =
      "\<lambda>a. [(''root'', JStr (butlast (butlast (drop 10 (the (adapter_fetch_config a))))))]"
      and pre = "take 3 (namespace_adapters list_blob_manager)" and ?ns0.0 = "''list''"
      and ?a0.0 = "(sample_adapter ''adls'' ''x'')\<lparr>adapter_fetch_config := Some ''[1]''\<rparr>"
      and post = "[]" and err = TypeError]
  by (simp add: export_manager_def list_blob_manager_def sample_manager_def init_def mount_def
      Let_def sample_adapter_def sample_resource_def sample_externals_def )

text \<open>
  Claim C6 as stated fails: with an exported adapter whose blob is the JSON array \<^verbatim>\<open>[1]\<close>,
  \<^verbatim>\<open>json_config['namespace'] = namespace\<close> raises and the exported adapter \<^verbatim>\<open>data\<close> before it
  appears in no sequence.
\<close>

theorem export_abort_counterexample:
  "map fst (namespace_adapters list_blob_manager) = [''local'', ''cdm'', ''data'', ''list'']
   \<and> system_defined_namespaces list_blob_manager = {''local'', ''cdm''}
   \<and> fst (fetch_config_adapters sample_externals (namespace_adapters list_blob_manager)
            list_blob_manager []) = Inl TypeError
   \<and> fst (fetch_config sample_externals list_blob_manager) = Inl TypeError"
  by (auto simp: list_blob_manager_def sample_manager_def init_def mount_def fetch_config_def
      Let_def sample_adapter_def sample_externals_def )

subsection \<open>Import\<close>

lemma registered_adapter_types_None:
  "registered_adapter_types t = None \<longleftrightarrow> t \<notin> {''local'', ''adls'', ''remote'', ''github''}"
  by (simp add: registered_adapter_types_def)

lemma mount_items_skip:
  "missing_field item \<Longrightarrow>
   \<exists>msg. mount_items ext (item # items) sm un = mount_items ext items (log_error msg None sm) un"
  by (auto simp: missing_field_def)

lemma mount_items_unrecognized:
  assumes "\<not> missing_field item"
    and "the (item_type item) \<notin> {''local'', ''adls'', ''remote'', ''github''}"
  shows "mount_items ext (item # items) sm un = mount_items ext items sm (un @ [dumps_item ext item])"
  using assms by (simp add: registered_adapter_types_None [THEN iffD2] missing_field_def)

lemma mount_items_known:
  assumes "\<not> missing_field item"
    and "registered_adapter_types (the (item_type item)) = Some cls"
    and "new_adapter ext cls (json_dumps ext (the (item_config item))) = Inr a"
  shows "mount_items ext (item # items) sm un
           = mount_items ext items (mount sm (the (item_namespace item)) (Some a)) un"
  using assms by (simp add: missing_field_def)

lemma mount_from_config_result:
  assumes "cfg \<noteq> []" "loads_document ext cfg = Inr doc" "doc_adapters doc = Some items"
  shows "mount_from_config ext sm cfg flag =
           (map_sum id (\<lambda>un. if flag then Some un else None)
              (fst (mount_items ext items (import_settings doc sm) [])),
            snd (mount_items ext items (import_settings doc sm) []))"
  using assms
  by (auto simp: mount_from_config_def Let_def split: prod.splits sum.splits)

lemma mount_items_example:
  assumes bad: "truthy (item_namespace bad)" "json_truthy (item_config bad)" "\<not> truthy (item_type bad)"
    and g1: "\<not> missing_field g1" "registered_adapter_types (the (item_type g1)) = Some cls1"
      "new_adapter ext cls1 (json_dumps ext (the (item_config g1))) = Inr a1"
    and g2: "\<not> missing_field g2" "registered_adapter_types (the (item_type g2)) = Some cls2"
      "new_adapter ext cls2 (json_dumps ext (the (item_config g2))) = Inr a2"
  shows "mount_items ext [bad, g1, g2] sm [] =
           (Inr [],
            mount (mount (log_error (''Missing type in the JSON config for the namespace '' @
                                       the (item_namespace bad) @ ''.'') None sm)
                     (the (item_namespace g1)) (Some a1))
              (the (item_namespace g2)) (Some a2))"
    and "fst ` set (namespace_adapters (snd (mount_items ext [bad, g1, g2] sm []))) =
           fst ` set (namespace_adapters sm) \<union> {the (item_namespace g1), the (item_namespace g2)}"
proof -
  show 1: "mount_items ext [bad, g1, g2] sm [] =
           (Inr [],
            mount (mount (log_error (''Missing type in the JSON config for the namespace '' @
                                       the (item_namespace bad) @ ''.'') None sm)
                     (the (item_namespace g1)) (Some a1))
              (the (item_namespace g2)) (Some a2))"
  proof -
    have "mount_items ext [bad, g1, g2] sm [] =
            mount_items ext [g1, g2]
              (log_error (''Missing type in the JSON config for the namespace '' @
                            the (item_namespace bad) @ ''.'') None sm) []"
      using bad by simp
    then show ?thesis
      by (simp only: mount_items_known [OF g1] mount_items_known [OF g2] mount_items.simps(1))
  qed
  show "fst ` set (namespace_adapters (snd (mount_items ext [bad, g1, g2] sm []))) =
           fst ` set (namespace_adapters sm) \<union> {the (item_namespace g1), the (item_namespace g2)}"
    unfolding 1 snd_conv
    by (cases "the (item_namespace g1) = the (item_namespace g2)")
       (simp_all add: mount_def dom_update insert_commute)
qed

lemma mount_items_raise:
  assumes "\<not> missing_field item"
    and "registered_adapter_types (the (item_type item)) = Some cls"
    and "new_adapter ext cls (json_dumps ext (the (item_config item))) = Inl e"
  shows "mount_items ext (item # items) sm un = (Inl e, sm)"
  using assms by (simp add: missing_field_def)

lemma mount_items_closed:
  assumes "\<forall>i \<in> set items. \<not> missing_field i \<longrightarrow>
             (\<forall>cls. registered_adapter_types (the (item_type i)) = Some cls \<longrightarrow>
                (\<exists>a. new_adapter ext cls (json_dumps ext (the (item_config i))) = Inr a))"
  shows "fst (mount_items ext items sm un) =
           Inr (un @ map (dumps_item ext)
                  (filter (\<lambda>i. \<not> missing_field i \<and>
                             registered_adapter_types (the (item_type i)) = None) items))
       \<and> fst ` set (namespace_adapters (snd (mount_items ext items sm un))) =
           fst ` set (namespace_adapters sm) \<union>
           (\<lambda>i. the (item_namespace i)) `
             {i \<in> set items. \<not> missing_field i \<and>
                              registered_adapter_types (the (item_type i)) \<noteq> None}
       \<and> length (logger (snd (mount_items ext items sm un))) =
           length (logger sm) + length (filter missing_field items)"
  using assms
proof (induction items arbitrary: sm un)
  case Nil
  then show ?case by simp
next
  case (Cons i items)
  have rest: "\<forall>i \<in> set items. \<not> missing_field i \<longrightarrow>
             (\<forall>cls. registered_adapter_types (the (item_type i)) = Some cls \<longrightarrow>
                (\<exists>a. new_adapter ext cls (json_dumps ext (the (item_config i))) = Inr a))"
    using Cons.prems by simp
  note IH = Cons.IH [OF rest]
  consider (miss) "missing_field i"
    | (unk) "\<not> missing_field i" "registered_adapter_types (the (item_type i)) = None"
    | (known) cls a where "\<not> missing_field i"
        "registered_adapter_types (the (item_type i)) = Some cls"
        "new_adapter ext cls (json_dumps ext (the (item_config i))) = Inr a"
    using Cons.prems by (cases "registered_adapter_types (the (item_type i))") auto
  then show ?case
  proof cases
    case miss
    then obtain msg where eq:
      "mount_items ext (i # items) sm un = mount_items ext items (log_error msg None sm) un"
      using mount_items_skip [OF miss] by blast
    show ?thesis
      unfolding eq using miss IH [of "log_error msg None sm" un] by auto
  next
    case unk
    then have eq: "mount_items ext (i # items) sm un
                 = mount_items ext items sm (un @ [dumps_item ext i])"
      using registered_adapter_types_None [of "the (item_type i)"]
      by (intro mount_items_unrecognized) simp_all
    show ?thesis
      unfolding eq using unk IH [of sm "un @ [dumps_item ext i]"] by auto
  next
    case known
    then have eq: "mount_items ext (i # items) sm un
                 = mount_items ext items (mount sm (the (item_namespace i)) (Some a)) un"
      by (intro mount_items_known)
    have m: "fst ` set (namespace_adapters (mount sm (the (item_namespace i)) (Some a)))
               = insert (the (item_namespace i)) (fst ` set (namespace_adapters sm))"
      "logger (mount sm (the (item_namespace i)) (Some a)) = logger sm"
      by (simp_all add: mount_def dom_update)
    show ?thesis
      unfolding eq using known IH [of "mount sm (the (item_namespace i)) (Some a)" un]
      by (auto simp: m)
  qed
qed

text \<open>
  Claim C5, as the code has it. The loop of \<^verbatim>\<open>mount_from_config\<close> returns the unrecognized
  list when the entries are exhausted. An entry with a missing (or empty) \<^verbatim>\<open>namespace\<close>,
  \<^verbatim>\<open>config\<close> or \<^verbatim>\<open>type\<close> adds one logged error and the loop goes on with the remaining
  entries; a complete entry whose type is none of \<^verbatim>\<open>local\<close>, \<^verbatim>\<open>adls\<close>, \<^verbatim>\<open>remote\<close>,
  \<^verbatim>\<open>github\<close> is appended, serialized, to the unrecognized list and the loop goes on; a
  complete entry of a registered type is mounted, and the loop goes on, when its adapter
  is built and configured; when that raises, the import raises and the remaining entries
  are not processed. For a document with an \<^verbatim>\<open>adapters\<close> array the function returns what
  the loop returns: the unrecognized list when the flag is set, \<^verbatim>\<open>None\<close> when it is not.
  When no adapter raises, the unrecognized list is the one given, followed by the complete
  entries of unregistered type in their order; the mounted namespaces are those of before
  and those of the complete entries of registered type; and one error is logged per entry
  with a missing field. A document with one entry missing its type and two well-formed
  entries whose adapters are built performs the two mounts after one logged error.
\<close>

theorem import_isolation:
  "mount_items ext [] sm un = (Inr un, sm)
   \<and> (missing_field bad \<longrightarrow>
      (\<exists>msg. mount_items ext (bad # items) sm un = mount_items ext items (log_error msg None sm) un))
   \<and> (\<not> missing_field unk \<and>
       the (item_type unk) \<notin> {''local'', ''adls'', ''remote'', ''github''} \<longrightarrow>
      mount_items ext (unk # items) sm un = mount_items ext items sm (un @ [dumps_item ext unk]))
   \<and> (\<not> missing_field good \<and> registered_adapter_types (the (item_type good)) = Some cls \<and>
       new_adapter ext cls (json_dumps ext (the (item_config good))) = Inr a \<longrightarrow>
      mount_items ext (good # items) sm un
        = mount_items ext items (mount sm (the (item_namespace good)) (Some a)) un)
   \<and> (\<not> missing_field rej \<and> registered_adapter_types (the (item_type rej)) = Some rcls \<and>
       new_adapter ext rcls (json_dumps ext (the (item_config rej))) = Inl e \<longrightarrow>
      mount_items ext (rej # items) sm un = (Inl e, sm))
   \<and> (cfg \<noteq> [] \<and> loads_document ext cfg = Inr doc \<and> doc_adapters doc = Some its \<longrightarrow>
      mount_from_config ext sm cfg flag =
        (map_sum id (\<lambda>u. if flag then Some u else None)
           (fst (mount_items ext its (import_settings doc sm) [])),
         snd (mount_items ext its (import_settings doc sm) [])))
   \<and> ((\<forall>i \<in> set its. \<not> missing_field i \<longrightarrow>
          (\<forall>c. registered_adapter_types (the (item_type i)) = Some c \<longrightarrow>
             (\<exists>b. new_adapter ext c (json_dumps ext (the (item_config i))) = Inr b))) \<longrightarrow>
      fst (mount_items ext its sm un) =
        Inr (un @ map (dumps_item ext)
               (filter (\<lambda>i. \<not> missing_field i \<and>
                          registered_adapter_types (the (item_type i)) = None) its))
      \<and> fst ` set (namespace_adapters (snd (mount_items ext its sm un))) =
          fst ` set (namespace_adapters sm) \<union>
          (\<lambda>i. the (item_namespace i)) `
            {i \<in> set its. \<not> missing_field i \<and>
                            registered_adapter_types (the (item_type i)) \<noteq> None}
      \<and> length (logger (snd (mount_items ext its sm un))) =
          length (logger sm) + length (filter missing_field its))
   \<and> (truthy (item_namespace nt) \<and> json_truthy (item_config nt) \<and> \<not> truthy (item_type nt) \<and>
       \<not> missing_field g1 \<and> registered_adapter_types (the (item_type g1)) = Some cls1 \<and>
       new_adapter ext cls1 (json_dumps ext (the (item_config g1))) = Inr a1 \<and>
       \<not> missing_field g2 \<and> registered_adapter_types (the (item_type g2)) = Some cls2 \<and>
       new_adapter ext cls2 (json_dumps ext (the (item_config g2))) = Inr a2 \<longrightarrow>
      mount_items ext [nt, g1, g2] sm [] =
        (Inr [],
         mount (mount (log_error (''Missing type in the JSON config for the namespace '' @
                                    the (item_namespace nt) @ ''.'') None sm)
                  (the (item_namespace g1)) (Some a1))
           (the (item_namespace g2)) (Some a2)) \<and>
      fst ` set (namespace_adapters (snd (mount_items ext [nt, g1, g2] sm []))) =
        fst ` set (namespace_adapters sm) \<union> {the (item_namespace g1), the (item_namespace g2)})"
proof (intro conjI impI; (elim conjE)?)
  show "mount_items ext [] sm un = (Inr un, sm)" by simp
  show "\<exists>msg. mount_items ext (bad # items) sm un = mount_items ext items (log_error msg None sm) un"
    if "missing_field bad"
    using that by (rule mount_items_skip)
  assume h: "\<forall>i \<in> set its. \<not> missing_field i \<longrightarrow>
          (\<forall>c. registered_adapter_types (the (item_type i)) = Some c \<longrightarrow>
             (\<exists>b. new_adapter ext c (json_dumps ext (the (item_config i))) = Inr b))"
  show "fst (mount_items ext its sm un) =
        Inr (un @ map (dumps_item ext)
               (filter (\<lambda>i. \<not> missing_field i \<and>
                          registered_adapter_types (the (item_type i)) = None) its))"
    and "fst ` set (namespace_adapters (snd (mount_items ext its sm un))) =
          fst ` set (namespace_adapters sm) \<union>
          (\<lambda>i. the (item_namespace i)) `
            {i \<in> set its. \<not> missing_field i \<and>
                            registered_adapter_types (the (item_type i)) \<noteq> None}"
    and "length (logger (snd (mount_items ext its sm un))) =
          length (logger sm) + length (filter missing_field its)"
    using mount_items_closed [OF h, of sm un] by blast+
qed (erule (1) mount_items_unrecognized, erule (2) mount_items_known,
     erule (2) mount_items_raise, erule (2) mount_from_config_result,
     (erule (8) mount_items_example)+)

theorem import_isolation_witness:
  "mount_from_config sample_externals sample_manager ''doc'' True =
     (Inr (Some []),
      mount (mount (log_error ''Missing type in the JSON config for the namespace broken.'' None
                      (import_settings sample_document sample_manager))
               ''store''
               (Some \<lparr>adapter_type = ''LocalAdapter'', create_corpus_path = (\<lambda>p. None),
                      adapter_fetch_config = Some ''{\"root\": \"/srv\"}''\<rparr>))
        ''web''
        (Some \<lparr>adapter_type = ''RemoteAdapter'', create_corpus_path = (\<lambda>p. None),
               adapter_fetch_config = Some ''{\"root\": \"http://w\"}''\<rparr>))
   \<and> fst (mount_items sample_externals [foreign_item] sample_manager []) = Inr [''cloud'']
   \<and> mount_items rejecting_externals (tl sample_items) sample_manager []
       = (Inl TypeError, sample_manager)"
  using import_isolation [where ext = sample_externals and sm = "sample_manager" and un = "[]"
      and cfg = "''doc''" and doc = sample_document and its = sample_items and flag = True
      and unk = foreign_item and items = "[]" and bad = "sample_items ! 0"
      and good = "sample_items ! 1" and cls = "''LocalAdapter''"
      and a = "\<lparr>adapter_type = ''LocalAdapter'', create_corpus_path = (\<lambda>p. None),
                 adapter_fetch_config = Some ''{\"root\": \"/srv\"}''\<rparr>"
      and rej = "sample_items ! 1" and rcls = "''LocalAdapter''" and e = TypeError
      and nt = "sample_items ! 0" and ?g1.0 = "sample_items ! 1" and ?cls1.0 = "''LocalAdapter''"
      and ?a1.0 = "\<lparr>adapter_type = ''LocalAdapter'', create_corpus_path = (\<lambda>p. None),
                 adapter_fetch_config = Some ''{\"root\": \"/srv\"}''\<rparr>"
      and ?g2.0 = "sample_items ! 2" and ?cls2.0 = "''RemoteAdapter''"
      and ?a2.0 = "\<lparr>adapter_type = ''RemoteAdapter'', create_corpus_path = (\<lambda>p. None),
                 adapter_fetch_config = Some ''{\"root\": \"http://w\"}''\<rparr>"]
    import_isolation [where ext = sample_externals and sm = "import_settings sample_document sample_manager" and un = "[]"
      and cfg = "''doc''" and doc = sample_document and its = sample_items and flag = True
      and unk = foreign_item and items = "[]" and bad = "sample_items ! 0"
      and good = "sample_items ! 1" and cls = "''LocalAdapter''"
      and a = "\<lparr>adapter_type = ''LocalAdapter'', create_corpus_path = (\<lambda>p. None),
                 adapter_fetch_config = Some ''{\"root\": \"/srv\"}''\<rparr>"
      and rej = "sample_items ! 1" and rcls = "''LocalAdapter''" and e = TypeError
      and nt = "sample_items ! 0" and ?g1.0 = "sample_items ! 1" and ?cls1.0 = "''LocalAdapter''"
      and ?a1.0 = "\<lparr>adapter_type = ''LocalAdapter'', create_corpus_path = (\<lambda>p. None),
                 adapter_fetch_config = Some ''{\"root\": \"/srv\"}''\<rparr>"
      and ?g2.0 = "sample_items ! 2" and ?cls2.0 = "''RemoteAdapter''"
      and ?a2.0 = "\<lparr>adapter_type = ''RemoteAdapter'', create_corpus_path = (\<lambda>p. None),
                 adapter_fetch_config = Some ''{\"root\": \"http://w\"}''\<rparr>"]
    import_isolation [where ext = rejecting_externals and sm = "sample_manager" and un = "[]"
      and cfg = "''doc''" and doc = sample_document and its = sample_items and flag = True
      and unk = foreign_item and items = "[sample_items ! 2]" and bad = "sample_items ! 0"
      and good = "sample_items ! 1" and cls = "''LocalAdapter''"
      and a = "\<lparr>adapter_type = ''LocalAdapter'', create_corpus_path = (\<lambda>p. None),
                 adapter_fetch_config = Some ''{\"root\": \"/srv\"}''\<rparr>"
      and rej = "sample_items ! 1" and rcls = "''LocalAdapter''" and e = TypeError
      and nt = "sample_items ! 0" and ?g1.0 = "sample_items ! 1" and ?cls1.0 = "''LocalAdapter''"
      and ?a1.0 = "\<lparr>adapter_type = ''LocalAdapter'', create_corpus_path = (\<lambda>p. None),
                 adapter_fetch_config = Some ''{\"root\": \"/srv\"}''\<rparr>"
      and ?g2.0 = "sample_items ! 2" and ?cls2.0 = "''RemoteAdapter''"
      and ?a2.0 = "\<lparr>adapter_type = ''RemoteAdapter'', create_corpus_path = (\<lambda>p. None),
                 adapter_fetch_config = Some ''{\"root\": \"http://w\"}''\<rparr>"]
  by (simp add: sample_items_def sample_document_def sample_externals_def foreign_item_def
      rejecting_externals_def missing_field_def registered_adapter_types_def)

text \<open>
  Claim C5 as stated fails: when the adapter classes reject their configuration, the
  document with one entry missing its type and two complete entries of registered types
  raises at the first complete entry, and no namespace is mounted.
\<close>

theorem import_abort_counterexample:
  "\<not> truthy (item_type (sample_items ! 0))
   \<and> \<not> missing_field (sample_items ! 1) \<and> \<not> missing_field (sample_items ! 2)
   \<and> fst (mount_from_config rejecting_externals sample_manager ''doc'' True) = Inl TypeError
   \<and> map fst (namespace_adapters
        (snd (mount_from_config rejecting_externals sample_manager ''doc'' True)))
       = [''local'', ''cdm'']"
  by (simp add: mount_from_config_def import_settings_def rejecting_externals_def
      sample_externals_def sample_document_def sample_items_def missing_field_def
      registered_adapter_types_def sample_manager_def init_def mount_def Let_def log_error_def)

end
